theory Spec2Isabelle
  imports Main "HOL-Library.Word"
begin

section \<open>Data model\<close>

type_synonym uint32 = "32 word"

text \<open>
  Modelled from the spec: the enumerations and messages of \<^verbatim>\<open>proto/tink.pb.h\<close>, which
  \<^verbatim>\<open>validation.cc\<close> includes but which is not among the sources. Section 3 of the
  specification gives the variants; the names of the sentinels are the ones the code
  compares against (\<^verbatim>\<open>UNKNOWN_STATUS\<close>, \<^verbatim>\<open>ENABLED\<close>, \<^verbatim>\<open>UNKNOWN_PREFIX\<close>,
  \<^verbatim>\<open>ASYMMETRIC_PUBLIC\<close>).
\<close>

datatype KeyStatusType = UNKNOWN_STATUS | ENABLED | DISABLED | DESTROYED

datatype OutputPrefixType = UNKNOWN_PREFIX | TINK | LEGACY | RAW | CRUNCHY

datatype KeyMaterialType =
  UNKNOWN_KEYMATERIAL | SYMMETRIC | ASYMMETRIC_PRIVATE | ASYMMETRIC_PUBLIC | REMOTE

text \<open>
  Modelled from the spec: the key payload. The validator reads nothing of it but
  \<^verbatim>\<open>key_material_type()\<close>.
\<close>

record KeyData =
  key_material_type :: KeyMaterialType

text \<open>
  Modelled from the spec: one key record. The payload is optional; the field is called
  \<open>key_data_field\<close> here, and the two accessors the code calls, \<^verbatim>\<open>has_key_data()\<close> and
  \<^verbatim>\<open>key_data()\<close>, are defined below.
\<close>

record Key =
  key_data_field :: "KeyData option"
  status :: KeyStatusType
  key_id :: uint32
  output_prefix_type :: OutputPrefixType

text \<open>Modelled from the spec: a keyset, an ordered sequence of records and the primary id.\<close>

record Keyset =
  primary_key_id :: uint32
  key :: "Key list"

definition has_key_data :: "Key \<Rightarrow> bool" where
  "has_key_data k = (key_data_field k \<noteq> None)"

text \<open>
  Modelled from the spec: the accessor of an absent payload. A message accessor returns
  the default message when the field is unset, whose enumeration fields hold their first
  variant.
\<close>

definition key_data :: "Key \<Rightarrow> KeyData" where
  "key_data k =
     (case key_data_field k of
        None \<Rightarrow> \<lparr>key_material_type = UNKNOWN_KEYMATERIAL\<rparr>
      | Some d \<Rightarrow> d)"

definition key_size :: "Keyset \<Rightarrow> int" where
  "key_size keyset = int (length (key keyset))"

section \<open>Results\<close>

text \<open>
  Modelled from the spec: \<^verbatim>\<open>util::Status\<close> and \<^verbatim>\<open>ToStatusF\<close> of
  \<^verbatim>\<open>tink/util/status.h\<close> and \<^verbatim>\<open>tink/util/errors.h\<close>, which are not among the sources.
  The only error kind the validator builds is \<^verbatim>\<open>INVALID_ARGUMENT\<close>. The specification
  treats the rendering of the message as an opaque collaborator, so a failure keeps the
  format string and the arguments handed to \<^verbatim>\<open>ToStatusF\<close> as they are.
\<close>

datatype Code = INVALID_ARGUMENT

datatype Status = OK | Error Code string "uint32 list"

definition ToStatusF :: "Code \<Rightarrow> string \<Rightarrow> uint32 list \<Rightarrow> Status" where
  "ToStatusF c fmt args = Error c fmt args"

fun ok :: "Status \<Rightarrow> bool" where
  "ok OK = True"
| "ok (Error c fmt args) = False"

section \<open>The four checks\<close>

definition ValidateAesKeySize :: "uint32 \<Rightarrow> Status" where
  "ValidateAesKeySize ksize =
     (if ksize \<noteq> 16 \<and> ksize \<noteq> 32
      then ToStatusF INVALID_ARGUMENT
             ''AES key has %d bytes; supported sizes: 16 or 32 bytes.'' [ksize]
      else OK)"

definition ValidateKey :: "Key \<Rightarrow> Status" where
  "ValidateKey k =
     (if \<not> has_key_data k
      then ToStatusF INVALID_ARGUMENT ''key %d, has no key data'' [key_id k]
      else if output_prefix_type k = UNKNOWN_PREFIX
      then ToStatusF INVALID_ARGUMENT ''key %d has unknown prefix'' [key_id k]
      else if status k = UNKNOWN_STATUS
      then ToStatusF INVALID_ARGUMENT ''key %d has unknown status'' [key_id k]
      else OK)"

text \<open>The three local variables of \<^verbatim>\<open>ValidateKeyset\<close> that the loop updates.\<close>

record loop_state =
  has_primary_key :: bool
  contains_only_public_key_material :: bool
  enabled_keys :: int

definition multiple_primary_keys :: Status where
  "multiple_primary_keys =
     ToStatusF INVALID_ARGUMENT ''keyset contains multiple primary keys'' []"

text \<open>
  One pass through the body of the \<^verbatim>\<open>for\<close> loop, on the record \<^verbatim>\<open>keyset.key(i)\<close>.
  \<open>Inl\<close> is a \<^verbatim>\<open>return\<close> from inside the loop; \<open>Inr\<close> gives the locals with which the
  next iteration starts, unchanged after \<^verbatim>\<open>continue\<close>.
\<close>

definition ValidateKeyset_body :: "uint32 \<Rightarrow> loop_state \<Rightarrow> Key \<Rightarrow> Status + loop_state" where
  "ValidateKeyset_body primary st k =
     (if status k \<noteq> ENABLED then Inr st
      else
        let st1 = st\<lparr>enabled_keys := enabled_keys st + 1\<rparr>;
            validation_result = ValidateKey k
        in if \<not> ok validation_result then Inl validation_result
           else
             case (if status k = ENABLED \<and> key_id k = primary
                   then (if has_primary_key st1 then Inl multiple_primary_keys
                         else Inr (st1\<lparr>has_primary_key := True\<rparr>))
                   else Inr st1) of
               Inl failure \<Rightarrow> Inl failure
             | Inr st2 \<Rightarrow>
                 Inr (if key_material_type (key_data k) \<noteq> ASYMMETRIC_PUBLIC
                      then st2\<lparr>contains_only_public_key_material := False\<rparr>
                      else st2))"

text \<open>
  The loop over \<^verbatim>\<open>i = 0 .. key_size() - 1\<close>, as a recursion over the records in sequence
  order that stops at the first \<^verbatim>\<open>return\<close>.
\<close>

fun ValidateKeyset_loop :: "uint32 \<Rightarrow> Key list \<Rightarrow> loop_state \<Rightarrow> Status + loop_state" where
  "ValidateKeyset_loop primary [] st = Inr st"
| "ValidateKeyset_loop primary (k # ks) st =
     (case ValidateKeyset_body primary st k of
        Inl failure \<Rightarrow> Inl failure
      | Inr st' \<Rightarrow> ValidateKeyset_loop primary ks st')"

definition initial_state :: loop_state where
  "initial_state =
     \<lparr>has_primary_key = False, contains_only_public_key_material = True, enabled_keys = 0\<rparr>"

definition ValidateKeyset :: "Keyset \<Rightarrow> Status" where
  "ValidateKeyset keyset =
     (if key_size keyset < 1
      then ToStatusF INVALID_ARGUMENT ''A valid keyset must contain at least one key.'' []
      else
        case ValidateKeyset_loop (primary_key_id keyset) (key keyset) initial_state of
          Inl failure \<Rightarrow> failure
        | Inr st \<Rightarrow>
            if enabled_keys st = 0
            then ToStatusF INVALID_ARGUMENT ''keyset must contain at least one ENABLED key'' []
            else if \<not> has_primary_key st \<and> \<not> contains_only_public_key_material st
            then ToStatusF INVALID_ARGUMENT ''keyset doesn't contain a valid primary key'' []
            else OK)"

definition ValidateVersion :: "uint32 \<Rightarrow> uint32 \<Rightarrow> Status" where
  "ValidateVersion candidate max_expected =
     (if candidate > max_expected
      then ToStatusF INVALID_ARGUMENT
             ''Key has version '%d'; only keys with version in range [0..%d] are supported.''
             [candidate, max_expected]
      else OK)"

text \<open>
  An Enabled record whose \<open>key_id\<close> is the keyset's \<open>primary_key_id\<close>: the condition
  under which the loop sets \<open>has_primary_key\<close>.
\<close>

abbreviation enabled_primary :: "uint32 \<Rightarrow> Key \<Rightarrow> bool" where
  "enabled_primary primary k \<equiv> status k = ENABLED \<and> key_id k = primary"


section \<open>One iteration\<close>

lemma body_skip: "status k \<noteq> ENABLED \<Longrightarrow> ValidateKeyset_body p st k = Inr st"
  by (simp add: ValidateKeyset_body_def)

lemma body_invalid:
  "status k = ENABLED \<Longrightarrow> ValidateKey k \<noteq> OK \<Longrightarrow> ValidateKeyset_body p st k = Inl (ValidateKey k)"
  by (cases "ValidateKey k") (simp_all add: ValidateKeyset_body_def Let_def)

lemma body_valid:
  "status k = ENABLED \<Longrightarrow> ValidateKey k = OK \<Longrightarrow>
   ValidateKeyset_body p st k =
     (if key_id k = p \<and> has_primary_key st then Inl multiple_primary_keys
      else Inr \<lparr>has_primary_key = (has_primary_key st \<or> key_id k = p),
                contains_only_public_key_material =
                  (contains_only_public_key_material st \<and>
                   key_material_type (key_data k) = ASYMMETRIC_PUBLIC),
                enabled_keys = enabled_keys st + 1\<rparr>)"
  by (simp add: ValidateKeyset_body_def Let_def)

lemma ValidateKey_not_multiple: "ValidateKey k \<noteq> multiple_primary_keys"
  by (simp add: ValidateKey_def multiple_primary_keys_def ToStatusF_def)

lemma multiple_not_OK: "multiple_primary_keys \<noteq> OK"
  by (simp add: multiple_primary_keys_def ToStatusF_def)



section \<open>The loop\<close>

lemma loop_filter:
  "ValidateKeyset_loop p ks st = ValidateKeyset_loop p (filter (\<lambda>k. status k = ENABLED) ks) st"
  by (induction ks arbitrary: st) (auto simp add: body_skip split: sum.splits)

lemma loop_append:
  "ValidateKeyset_loop p (xs @ ys) st =
     (case ValidateKeyset_loop p xs st of
        Inl e \<Rightarrow> Inl e
      | Inr st' \<Rightarrow> ValidateKeyset_loop p ys st')"
  by (induction xs arbitrary: st) (simp_all split: sum.splits)

lemma loop_skip:
  "status k \<noteq> ENABLED \<Longrightarrow>
   ValidateKeyset_loop p (pre @ k # rest) st = ValidateKeyset_loop p (pre @ rest) st"
  by (simp add: loop_append body_skip split: sum.splits)

lemma loop_none_enabled:
  "\<forall>k\<in>set ks. status k \<noteq> ENABLED \<Longrightarrow> ValidateKeyset_loop p ks st = Inr st"
  by (induction ks arbitrary: st) (simp_all add: body_skip)

lemma loop_runs:
  assumes "\<forall>k\<in>set ks. status k = ENABLED \<longrightarrow> ValidateKey k = OK"
    and "length (filter (enabled_primary p) ks) \<le> 1"
    and "has_primary_key st \<longrightarrow> filter (enabled_primary p) ks = []"
  shows "ValidateKeyset_loop p ks st =
     Inr \<lparr>has_primary_key = (has_primary_key st \<or> (\<exists>k\<in>set ks. enabled_primary p k)),
          contains_only_public_key_material =
            (contains_only_public_key_material st \<and>
             (\<forall>k\<in>set ks. status k = ENABLED \<longrightarrow>
                 key_material_type (key_data k) = ASYMMETRIC_PUBLIC)),
          enabled_keys = enabled_keys st + int (length (filter (\<lambda>k. status k = ENABLED) ks))\<rparr>"
  using assms
proof (induction ks arbitrary: st)
  case Nil
  then show ?case by simp
next
  case (Cons k ks)
  show ?case
  proof (cases "status k = ENABLED")
    case False
    with Cons.prems Cons.IH [of st] show ?thesis by (simp add: body_skip)
  next
    case True
    with Cons.prems have vk: "ValidateKey k = OK" by simp
    show ?thesis
    proof (cases "key_id k = p")
      case isp: True
      with True Cons.prems have np: "\<not> has_primary_key st"
        and nf: "filter (enabled_primary p) ks = []"
        by auto
      from nf have nf': "\<forall>x\<in>set ks. \<not> enabled_primary p x"
        by (simp add: filter_empty_conv)
      show ?thesis
        using True isp vk np nf nf' Cons.prems(1)
        by (simp add: body_valid Cons.IH)
    next
      case nisp: False
      show ?thesis
        using True nisp vk Cons.prems
        by (auto simp add: body_valid Cons.IH)
    qed
  qed
qed

lemma loop_multiple:
  assumes "\<forall>k\<in>set pre. status k = ENABLED \<longrightarrow> ValidateKey k = OK"
    and "enabled_primary p q" and "ValidateKey q = OK"
    and "has_primary_key st \<or> (\<exists>k\<in>set pre. enabled_primary p k)"
  shows "ValidateKeyset_loop p (pre @ q # rest) st = Inl multiple_primary_keys"
  using assms
proof (induction pre arbitrary: st)
  case Nil
  then show ?case by (simp add: body_valid)
next
  case (Cons k pre)
  show ?case
  proof (cases "status k = ENABLED")
    case False
    with Cons.prems Cons.IH [of st] show ?thesis by (simp add: body_skip)
  next
    case True
    with Cons.prems have vk: "ValidateKey k = OK" by simp
    show ?thesis
      using True vk Cons.prems
      by (auto simp add: body_valid Cons.IH)
  qed
qed

lemma loop_multiple_only:
  "ValidateKeyset_loop p ks st = Inl multiple_primary_keys \<Longrightarrow>
   (if has_primary_key st then 1 else 0) + length (filter (enabled_primary p) ks) \<ge> 2"
proof (induction ks arbitrary: st)
  case Nil
  then show ?case by simp
next
  case (Cons k ks)
  show ?case
  proof (cases "status k = ENABLED")
    case False
    with Cons.prems Cons.IH [of st] show ?thesis by (simp add: body_skip)
  next
    case en: True
    show ?thesis
    proof (cases "ValidateKey k = OK")
      case False
      with en Cons.prems show ?thesis
        by (simp add: body_invalid ValidateKey_not_multiple)
    next
      case True
      with en Cons.prems show ?thesis
        by (auto simp add: body_valid split: if_splits dest!: Cons.IH)
    qed
  qed
qed

lemma loop_failure:
  "ValidateKeyset_loop p ks st = Inl e \<Longrightarrow>
   e = multiple_primary_keys \<or>
   (\<exists>k\<in>set ks. status k = ENABLED \<and> ValidateKey k \<noteq> OK \<and> e = ValidateKey k)"
proof (induction ks arbitrary: st)
  case Nil
  then show ?case by simp
next
  case (Cons k ks)
  show ?case
  proof (cases "status k = ENABLED")
    case False
    with Cons.prems Cons.IH [of st] show ?thesis by (simp add: body_skip)
  next
    case en: True
    show ?thesis
    proof (cases "ValidateKey k = OK")
      case False
      with en Cons.prems show ?thesis
        by (auto simp add: body_invalid)
    next
      case True
      with en Cons.prems show ?thesis
        by (auto simp add: body_valid split: if_splits dest!: Cons.IH)
    qed
  qed
qed

lemma loop_all_valid:
  "ValidateKeyset_loop p ks st = Inr st' \<Longrightarrow>
   \<forall>k\<in>set ks. status k = ENABLED \<longrightarrow> ValidateKey k = OK"
proof (induction ks arbitrary: st)
  case Nil
  then show ?case by simp
next
  case (Cons k ks)
  show ?case
  proof (cases "status k = ENABLED")
    case False
    with Cons.prems Cons.IH [of st] show ?thesis by (simp add: body_skip)
  next
    case en: True
    show ?thesis
    proof (cases "ValidateKey k = OK")
      case False
      with en Cons.prems show ?thesis
        by (simp add: body_invalid)
    next
      case True
      with en Cons.prems show ?thesis
        by (auto simp add: body_valid split: if_splits dest!: Cons.IH)
    qed
  qed
qed



text \<open>
  The counter \<open>enabled_keys\<close> is an \<^verbatim>\<open>int\<close> in the source and an unbounded integer
  here. It counts the Enabled records visited, so it never leaves the range from 0 to
  \<^verbatim>\<open>key_size()\<close>, itself an \<^verbatim>\<open>int\<close>: the source's counter cannot overflow.
\<close>

lemma loop_enabled_keys:
  "ValidateKeyset_loop p ks st = Inr st' \<Longrightarrow>
   enabled_keys st' = enabled_keys st + int (length (filter (\<lambda>k. status k = ENABLED) ks))"
proof (induction ks arbitrary: st)
  case Nil
  then show ?case by simp
next
  case (Cons k ks)
  show ?case
  proof (cases "status k = ENABLED")
    case False
    with Cons.prems Cons.IH [of st] show ?thesis by (simp add: body_skip)
  next
    case en: True
    show ?thesis
    proof (cases "ValidateKey k = OK")
      case False
      with en Cons.prems show ?thesis
        by (simp add: body_invalid)
    next
      case True
      with en Cons.prems show ?thesis
        by (auto simp add: body_valid split: if_splits dest!: Cons.IH)
    qed
  qed
qed

lemma loop_enabled_keys_bound:
  assumes "ValidateKeyset_loop p ks st = Inr st'"
  shows "enabled_keys st \<le> enabled_keys st' \<and> enabled_keys st' \<le> enabled_keys st + int (length ks)"
proof -
  have "length (filter (\<lambda>k. status k = ENABLED) ks) \<le> length ks"
    by (rule length_filter_le)
  with loop_enabled_keys [OF assms] show ?thesis by simp
qed

section \<open>The verdict of \<open>ValidateKeyset\<close>\<close>

lemma ValidateKeyset_nonempty:
  "key ks \<noteq> [] \<Longrightarrow>
   ValidateKeyset ks =
     (case ValidateKeyset_loop (primary_key_id ks) (key ks) initial_state of
        Inl failure \<Rightarrow> failure
      | Inr st \<Rightarrow>
          if enabled_keys st = 0
          then ToStatusF INVALID_ARGUMENT ''keyset must contain at least one ENABLED key'' []
          else if \<not> has_primary_key st \<and> \<not> contains_only_public_key_material st
          then ToStatusF INVALID_ARGUMENT ''keyset doesn't contain a valid primary key'' []
          else OK)"
  by (cases "key ks") (simp_all add: ValidateKeyset_def key_size_def)

lemma ValidateKeyset_runs:
  assumes "\<forall>k\<in>set (key ks). status k = ENABLED \<longrightarrow> ValidateKey k = OK"
    and "length (filter (enabled_primary (primary_key_id ks)) (key ks)) \<le> 1"
    and "\<exists>k\<in>set (key ks). status k = ENABLED"
  shows "ValidateKeyset ks =
     (if (\<exists>k\<in>set (key ks). enabled_primary (primary_key_id ks) k) \<or>
         (\<forall>k\<in>set (key ks). status k = ENABLED \<longrightarrow>
             key_material_type (key_data k) = ASYMMETRIC_PUBLIC)
      then OK
      else ToStatusF INVALID_ARGUMENT ''keyset doesn't contain a valid primary key'' [])"
proof -
  from assms(3) have ne: "key ks \<noteq> []" by auto
  from assms(3) have "filter (\<lambda>k. status k = ENABLED) (key ks) \<noteq> []"
    by (simp add: filter_empty_conv)
  then have pos: "int (length (filter (\<lambda>k. status k = ENABLED) (key ks))) \<noteq> 0"
    by simp
  have run: "ValidateKeyset_loop (primary_key_id ks) (key ks) initial_state =
     Inr \<lparr>has_primary_key = (\<exists>k\<in>set (key ks). enabled_primary (primary_key_id ks) k),
          contains_only_public_key_material =
             (\<forall>k\<in>set (key ks). status k = ENABLED \<longrightarrow>
                 key_material_type (key_data k) = ASYMMETRIC_PUBLIC),
          enabled_keys = int (length (filter (\<lambda>k. status k = ENABLED) (key ks)))\<rparr>"
    using loop_runs [OF assms(1) assms(2), of initial_state]
    by (simp add: initial_state_def)
  show ?thesis
    using pos by (auto simp add: ValidateKeyset_nonempty [OF ne] run)
qed

lemma ValidateKeyset_OK_valid:
  assumes "ValidateKeyset ks = OK" and "k \<in> set (key ks)" and "status k = ENABLED"
  shows "ValidateKey k = OK"
proof -
  from assms(2) have ne: "key ks \<noteq> []" by auto
  show ?thesis
  proof (cases "ValidateKeyset_loop (primary_key_id ks) (key ks) initial_state")
    case (Inl failure)
    with assms(1) ne have "failure = OK" by (simp add: ValidateKeyset_nonempty)
    with loop_failure [OF Inl] multiple_not_OK show ?thesis by auto
  next
    case (Inr st')
    from loop_all_valid [OF this] assms(2,3) show ?thesis by simp
  qed
qed

lemma ValidateKeyset_remove:
  assumes "status k \<noteq> ENABLED" and "pre @ rest \<noteq> []"
  shows "ValidateKeyset (ks\<lparr>key := pre @ k # rest\<rparr>) = ValidateKeyset (ks\<lparr>key := pre @ rest\<rparr>)"
proof -
  have "ValidateKeyset_loop p (pre @ k # rest) st = ValidateKeyset_loop p (pre @ rest) st"
    for p st
    using assms(1) by (rule loop_skip)
  with assms(2) show ?thesis
    by (simp add: ValidateKeyset_nonempty)
qed

lemma ValidateKeyset_propagates:
  assumes "key ks = pre @ k # rest"
    and "status k = ENABLED" and "ValidateKey k \<noteq> OK"
    and "\<forall>j\<in>set pre. status j = ENABLED \<longrightarrow> ValidateKey j = OK"
    and "length (filter (enabled_primary (primary_key_id ks)) pre) \<le> 1"
  shows "ValidateKeyset ks = ValidateKey k"
proof -
  from assms(1) have ne: "key ks \<noteq> []" by simp
  have "ValidateKeyset_loop (primary_key_id ks) (key ks) initial_state = Inl (ValidateKey k)"
    using loop_runs [OF assms(4) assms(5), of initial_state] assms(1,2,3)
    by (simp add: loop_append initial_state_def body_invalid)
  then show ?thesis by (simp add: ValidateKeyset_nonempty [OF ne])
qed

lemma ValidateKeyset_multiple:
  assumes "key ks = pre @ q # rest"
    and "enabled_primary (primary_key_id ks) q"
    and "\<exists>k\<in>set pre. enabled_primary (primary_key_id ks) k"
    and "\<forall>k\<in>set pre. status k = ENABLED \<longrightarrow> ValidateKey k = OK"
    and "ValidateKey q = OK"
  shows "ValidateKeyset ks = multiple_primary_keys"
proof -
  from assms(1) have ne: "key ks \<noteq> []" by simp
  have "ValidateKeyset_loop (primary_key_id ks) (pre @ q # rest) initial_state =
      Inl multiple_primary_keys"
    using assms(2-5) by (intro loop_multiple) simp_all
  with assms(1) show ?thesis by (simp add: ValidateKeyset_nonempty [OF ne])
qed

lemma ValidateKeyset_multiple_only:
  assumes "ValidateKeyset ks = multiple_primary_keys"
  shows "2 \<le> length (filter (enabled_primary (primary_key_id ks)) (key ks))"
proof (cases "key ks = []")
  case True
  with assms show ?thesis
    by (simp add: ValidateKeyset_def key_size_def multiple_primary_keys_def ToStatusF_def)
next
  case ne: False
  show ?thesis
  proof (cases "ValidateKeyset_loop (primary_key_id ks) (key ks) initial_state")
    case (Inl failure)
    with assms ne have "failure = multiple_primary_keys"
      by (simp add: ValidateKeyset_nonempty)
    with Inl loop_multiple_only [of "primary_key_id ks" "key ks" initial_state]
    show ?thesis by (simp add: initial_state_def)
  next
    case (Inr st')
    with assms ne show ?thesis
      by (simp add: ValidateKeyset_nonempty multiple_primary_keys_def ToStatusF_def
          split: if_splits)
  qed
qed

lemma two_matches:
  "2 \<le> length (filter P xs) \<Longrightarrow>
   \<exists>pre q rest. xs = pre @ q # rest \<and> P q \<and> (\<exists>k\<in>set pre. P k)"
proof (induction xs)
  case Nil
  then show ?case by simp
next
  case (Cons x xs)
  show ?case
  proof (cases "P x")
    case True
    with Cons.prems have "filter P xs \<noteq> []" by auto
    then obtain q where "q \<in> set xs" and q: "P q"
      by (auto simp add: filter_empty_conv)
    then obtain ys zs where "xs = ys @ q # zs"
      by (auto dest: split_list)
    then have "x # xs = (x # ys) @ q # zs" by simp
    with True q show ?thesis by (intro exI [of _ "x # ys"]) auto
  next
    case False
    with Cons.prems have "2 \<le> length (filter P xs)" by simp
    from Cons.IH [OF this] obtain pre q rest
      where "xs = pre @ q # rest" and "P q" and "\<exists>k\<in>set pre. P k"
      by blast
    then have "x # xs = (x # pre) @ q # rest \<and> P q \<and> (\<exists>k\<in>set (x # pre). P k)"
      by auto
    then show ?thesis by blast
  qed
qed

lemma ValidateKeyset_two_primaries:
  assumes "\<forall>k\<in>set (key ks). status k = ENABLED \<longrightarrow> ValidateKey k = OK"
    and "2 \<le> length (filter (enabled_primary (primary_key_id ks)) (key ks))"
  shows "ValidateKeyset ks = multiple_primary_keys"
proof -
  from two_matches [OF assms(2)] obtain pre q rest
    where split: "key ks = pre @ q # rest"
      and q: "enabled_primary (primary_key_id ks) q"
      and pre: "\<exists>k\<in>set pre. enabled_primary (primary_key_id ks) k"
    by blast
  from assms(1) split q
  have "\<forall>k\<in>set pre. status k = ENABLED \<longrightarrow> ValidateKey k = OK" and "ValidateKey q = OK"
    by auto
  with split q pre show ?thesis by (intro ValidateKeyset_multiple)
qed



section \<open>Sizes and versions\<close>

text \<open>
  C7. For every unsigned 32-bit size, \<open>ValidateAesKeySize\<close> succeeds if and only if the size
  is 16 or 32; every other value, 0 and oversized values included, fails with
  \<open>INVALID_ARGUMENT\<close>, the diagnostic carrying the offending size.
\<close>

theorem ValidateAesKeySize_iff:
  "(ValidateAesKeySize n = OK \<longleftrightarrow> n = 16 \<or> n = 32) \<and>
   (n \<noteq> 16 \<and> n \<noteq> 32 \<longrightarrow>
      ValidateAesKeySize n =
        ToStatusF INVALID_ARGUMENT
          ''AES key has %d bytes; supported sizes: 16 or 32 bytes.'' [n])"
  by (simp add: ValidateAesKeySize_def ToStatusF_def)

theorem ValidateAesKeySize_iff_witness:
  "ValidateAesKeySize 16 = OK \<and> ValidateAesKeySize 32 = OK \<and>
   ValidateAesKeySize 0 =
     ToStatusF INVALID_ARGUMENT
       ''AES key has %d bytes; supported sizes: 16 or 32 bytes.'' [0] \<and>
   ValidateAesKeySize 4294967295 =
     ToStatusF INVALID_ARGUMENT
       ''AES key has %d bytes; supported sizes: 16 or 32 bytes.'' [4294967295]"
  using ValidateAesKeySize_iff [of 16] ValidateAesKeySize_iff [of 32]
    ValidateAesKeySize_iff [of 0] ValidateAesKeySize_iff [of 4294967295]
  by simp

text \<open>
  C8. For every pair of unsigned 32-bit values, \<open>ValidateVersion\<close> succeeds if and only if
  \<open>candidate \<le> max_expected\<close> as unsigned numbers, so candidate 0 always succeeds, and
  fails with \<open>INVALID_ARGUMENT\<close>, the diagnostic carrying both values, when
  \<open>candidate > max_expected\<close>.
\<close>

theorem ValidateVersion_iff:
  "(ValidateVersion candidate max_expected = OK \<longleftrightarrow> unat candidate \<le> unat max_expected) \<and>
   (unat candidate > unat max_expected \<longrightarrow>
      ValidateVersion candidate max_expected =
        ToStatusF INVALID_ARGUMENT
          ''Key has version '%d'; only keys with version in range [0..%d] are supported.''
          [candidate, max_expected]) \<and>
   ValidateVersion 0 max_expected = OK"
  by (auto simp add: ValidateVersion_def ToStatusF_def word_le_nat_alt word_less_nat_alt)

theorem ValidateVersion_iff_witness:
  "ValidateVersion 3 3 = OK \<and> ValidateVersion 0 0 = OK \<and>
   ValidateVersion 4 3 =
     ToStatusF INVALID_ARGUMENT
       ''Key has version '%d'; only keys with version in range [0..%d] are supported.''
       [4, 3]"
  using ValidateVersion_iff [of 3 3] ValidateVersion_iff [of 0 0] ValidateVersion_iff [of 4 3]
  by simp

section \<open>One key record\<close>

text \<open>
  C4. \<open>ValidateKey\<close> succeeds if and only if the payload is present, the prefix type is not
  \<open>UNKNOWN_PREFIX\<close> and the status is not \<open>UNKNOWN_STATUS\<close>, so Disabled and Destroyed
  records are accepted. Otherwise it fails with \<open>INVALID_ARGUMENT\<close>, and the diagnostic is
  that of the first violated check in the order payload, prefix, status.
\<close>

theorem ValidateKey_iff:
  "(ValidateKey k = OK \<longleftrightarrow>
      has_key_data k \<and> output_prefix_type k \<noteq> UNKNOWN_PREFIX \<and> status k \<noteq> UNKNOWN_STATUS) \<and>
   (\<not> has_key_data k \<longrightarrow>
      ValidateKey k = ToStatusF INVALID_ARGUMENT ''key %d, has no key data'' [key_id k]) \<and>
   (has_key_data k \<and> output_prefix_type k = UNKNOWN_PREFIX \<longrightarrow>
      ValidateKey k = ToStatusF INVALID_ARGUMENT ''key %d has unknown prefix'' [key_id k]) \<and>
   (has_key_data k \<and> output_prefix_type k \<noteq> UNKNOWN_PREFIX \<and> status k = UNKNOWN_STATUS \<longrightarrow>
      ValidateKey k = ToStatusF INVALID_ARGUMENT ''key %d has unknown status'' [key_id k])"
  by (simp add: ValidateKey_def ToStatusF_def)

theorem ValidateKey_iff_witness:
  "ValidateKey \<lparr>key_data_field = Some \<lparr>key_material_type = SYMMETRIC\<rparr>,
                status = DISABLED, key_id = 9, output_prefix_type = RAW\<rparr> = OK \<and>
   ValidateKey \<lparr>key_data_field = Some \<lparr>key_material_type = UNKNOWN_KEYMATERIAL\<rparr>,
                status = DESTROYED, key_id = 9, output_prefix_type = LEGACY\<rparr> = OK \<and>
   ValidateKey \<lparr>key_data_field = None,
                status = UNKNOWN_STATUS, key_id = 9, output_prefix_type = UNKNOWN_PREFIX\<rparr> =
     ToStatusF INVALID_ARGUMENT ''key %d, has no key data'' [9] \<and>
   ValidateKey \<lparr>key_data_field = Some \<lparr>key_material_type = SYMMETRIC\<rparr>,
                status = UNKNOWN_STATUS, key_id = 9, output_prefix_type = UNKNOWN_PREFIX\<rparr> =
     ToStatusF INVALID_ARGUMENT ''key %d has unknown prefix'' [9] \<and>
   ValidateKey \<lparr>key_data_field = Some \<lparr>key_material_type = SYMMETRIC\<rparr>,
                status = UNKNOWN_STATUS, key_id = 9, output_prefix_type = CRUNCHY\<rparr> =
     ToStatusF INVALID_ARGUMENT ''key %d has unknown status'' [9]"
  using
    ValidateKey_iff [of "\<lparr>key_data_field = Some \<lparr>key_material_type = SYMMETRIC\<rparr>,
                status = DISABLED, key_id = 9, output_prefix_type = RAW\<rparr>"]
    ValidateKey_iff [of "\<lparr>key_data_field = Some \<lparr>key_material_type = UNKNOWN_KEYMATERIAL\<rparr>,
                status = DESTROYED, key_id = 9, output_prefix_type = LEGACY\<rparr>"]
    ValidateKey_iff [of "\<lparr>key_data_field = None,
                status = UNKNOWN_STATUS, key_id = 9, output_prefix_type = UNKNOWN_PREFIX\<rparr>"]
    ValidateKey_iff [of "\<lparr>key_data_field = Some \<lparr>key_material_type = SYMMETRIC\<rparr>,
                status = UNKNOWN_STATUS, key_id = 9, output_prefix_type = UNKNOWN_PREFIX\<rparr>"]
    ValidateKey_iff [of "\<lparr>key_data_field = Some \<lparr>key_material_type = SYMMETRIC\<rparr>,
                status = UNKNOWN_STATUS, key_id = 9, output_prefix_type = CRUNCHY\<rparr>"]
  by (simp add: has_key_data_def)

section \<open>Keysets\<close>

text \<open>
  C6. A keyset with no records fails with \<open>INVALID_ARGUMENT\<close> and the diagnostic
  "A valid keyset must contain at least one key.", whatever its \<open>primary_key_id\<close>: the
  test is the first statement of \<open>ValidateKeyset\<close>.
\<close>

theorem ValidateKeyset_empty:
  "key ks = [] \<Longrightarrow>
   ValidateKeyset ks =
     ToStatusF INVALID_ARGUMENT ''A valid keyset must contain at least one key.'' []"
  by (simp add: ValidateKeyset_def key_size_def)

theorem ValidateKeyset_empty_witness:
  "ValidateKeyset \<lparr>primary_key_id = 7, key = []\<rparr> =
     ToStatusF INVALID_ARGUMENT ''A valid keyset must contain at least one key.'' []"
  using ValidateKeyset_empty [of "\<lparr>primary_key_id = 7, key = []\<rparr>"] by simp

text \<open>
  C5. A keyset that has records, none of them Enabled, fails with \<open>INVALID_ARGUMENT\<close> and
  the diagnostic "keyset must contain at least one ENABLED key".
\<close>

theorem ValidateKeyset_none_enabled:
  assumes "key ks \<noteq> []" and "\<forall>k\<in>set (key ks). status k \<noteq> ENABLED"
  shows "ValidateKeyset ks =
     ToStatusF INVALID_ARGUMENT ''keyset must contain at least one ENABLED key'' []"
  by (simp add: ValidateKeyset_nonempty [OF assms(1)] loop_none_enabled [OF assms(2)]
      initial_state_def)

theorem ValidateKeyset_none_enabled_witness:
  "ValidateKeyset
     \<lparr>primary_key_id = 1,
      key = [\<lparr>key_data_field = Some \<lparr>key_material_type = SYMMETRIC\<rparr>,
              status = DISABLED, key_id = 1, output_prefix_type = TINK\<rparr>,
             \<lparr>key_data_field = None,
              status = DESTROYED, key_id = 2, output_prefix_type = RAW\<rparr>]\<rparr> =
     ToStatusF INVALID_ARGUMENT ''keyset must contain at least one ENABLED key'' []"
  using ValidateKeyset_none_enabled [of
      "\<lparr>primary_key_id = 1,
        key = [\<lparr>key_data_field = Some \<lparr>key_material_type = SYMMETRIC\<rparr>,
                status = DISABLED, key_id = 1, output_prefix_type = TINK\<rparr>,
               \<lparr>key_data_field = None,
                status = DESTROYED, key_id = 2, output_prefix_type = RAW\<rparr>]\<rparr>"]
  by simp

text \<open>
  C1. In a keyset where no Enabled record has \<open>key_id\<close> equal to \<open>primary_key_id\<close>, every
  Enabled record passes \<open>ValidateKey\<close> and at least one record is Enabled,
  \<open>ValidateKeyset\<close> succeeds if the key material of every Enabled record is
  \<open>ASYMMETRIC_PUBLIC\<close>, and otherwise fails with \<open>INVALID_ARGUMENT\<close> and the diagnostic
  "keyset doesn't contain a valid primary key".
\<close>

theorem ValidateKeyset_no_primary:
  assumes "\<forall>k\<in>set (key ks). \<not> (status k = ENABLED \<and> key_id k = primary_key_id ks)"
    and "\<forall>k\<in>set (key ks). status k = ENABLED \<longrightarrow> ValidateKey k = OK"
    and "\<exists>k\<in>set (key ks). status k = ENABLED"
  shows "ValidateKeyset ks =
     (if \<forall>k\<in>set (key ks). status k = ENABLED \<longrightarrow>
            key_material_type (key_data k) = ASYMMETRIC_PUBLIC
      then OK
      else ToStatusF INVALID_ARGUMENT ''keyset doesn't contain a valid primary key'' [])"
proof -
  from assms(1) have none: "filter (enabled_primary (primary_key_id ks)) (key ks) = []"
    by (simp add: filter_empty_conv)
  then have "length (filter (enabled_primary (primary_key_id ks)) (key ks)) \<le> 1"
    by simp
  from ValidateKeyset_runs [OF assms(2) this assms(3)] assms(1)
  show ?thesis by auto
qed

theorem ValidateKeyset_no_primary_witness:
  "ValidateKeyset
     \<lparr>primary_key_id = 1,
      key = [\<lparr>key_data_field = Some \<lparr>key_material_type = ASYMMETRIC_PUBLIC\<rparr>,
              status = ENABLED, key_id = 2, output_prefix_type = TINK\<rparr>]\<rparr> = OK \<and>
   ValidateKeyset
     \<lparr>primary_key_id = 1,
      key = [\<lparr>key_data_field = Some \<lparr>key_material_type = SYMMETRIC\<rparr>,
              status = ENABLED, key_id = 2, output_prefix_type = TINK\<rparr>]\<rparr> =
     ToStatusF INVALID_ARGUMENT ''keyset doesn't contain a valid primary key'' []"
  using
    ValidateKeyset_no_primary [of
      "\<lparr>primary_key_id = 1,
        key = [\<lparr>key_data_field = Some \<lparr>key_material_type = ASYMMETRIC_PUBLIC\<rparr>,
                status = ENABLED, key_id = 2, output_prefix_type = TINK\<rparr>]\<rparr>"]
    ValidateKeyset_no_primary [of
      "\<lparr>primary_key_id = 1,
        key = [\<lparr>key_data_field = Some \<lparr>key_material_type = SYMMETRIC\<rparr>,
                status = ENABLED, key_id = 2, output_prefix_type = TINK\<rparr>]\<rparr>"]
  by (simp add: ValidateKey_def has_key_data_def key_data_def)

text \<open>
  C2, amended. Let \<open>q\<close> be an Enabled record with \<open>key_id\<close> equal to \<open>primary_key_id\<close> that
  comes after another such record, so that the keyset holds two or more of them. If \<open>q\<close>
  and every Enabled record before it pass \<open>ValidateKey\<close>, then \<open>ValidateKeyset\<close> fails with
  \<open>INVALID_ARGUMENT\<close> and the diagnostic "keyset contains multiple primary keys". What
  comes after \<open>q\<close> is never looked at. With at most one such Enabled record,
  \<open>ValidateKeyset\<close> never returns that failure.
\<close>

theorem ValidateKeyset_multiple_primary:
  "(key ks = pre @ q # rest \<and>
    status q = ENABLED \<and> key_id q = primary_key_id ks \<and>
    (\<exists>k\<in>set pre. status k = ENABLED \<and> key_id k = primary_key_id ks) \<and>
    (\<forall>k\<in>set pre. status k = ENABLED \<longrightarrow> ValidateKey k = OK) \<and> ValidateKey q = OK \<longrightarrow>
      ValidateKeyset ks = multiple_primary_keys) \<and>
   (length (filter (enabled_primary (primary_key_id ks)) (key ks)) \<le> 1 \<longrightarrow>
      ValidateKeyset ks \<noteq> multiple_primary_keys)"
proof -
  have "length (filter (enabled_primary (primary_key_id ks)) (key ks)) \<le> 1 \<longrightarrow>
      ValidateKeyset ks \<noteq> multiple_primary_keys"
    using ValidateKeyset_multiple_only [of ks] by auto
  with ValidateKeyset_multiple [of ks pre q rest] show ?thesis by blast
qed

theorem ValidateKeyset_multiple_primary_witness:
  "ValidateKeyset
     \<lparr>primary_key_id = 1,
      key = [\<lparr>key_data_field = Some \<lparr>key_material_type = SYMMETRIC\<rparr>,
              status = ENABLED, key_id = 1, output_prefix_type = TINK\<rparr>,
             \<lparr>key_data_field = Some \<lparr>key_material_type = SYMMETRIC\<rparr>,
              status = ENABLED, key_id = 1, output_prefix_type = RAW\<rparr>,
             \<lparr>key_data_field = None,
              status = ENABLED, key_id = 5, output_prefix_type = TINK\<rparr>]\<rparr> =
     multiple_primary_keys \<and>
   ValidateKeyset
     \<lparr>primary_key_id = 1,
      key = [\<lparr>key_data_field = Some \<lparr>key_material_type = SYMMETRIC\<rparr>,
              status = ENABLED, key_id = 1, output_prefix_type = TINK\<rparr>,
             \<lparr>key_data_field = Some \<lparr>key_material_type = SYMMETRIC\<rparr>,
              status = DISABLED, key_id = 1, output_prefix_type = TINK\<rparr>]\<rparr> \<noteq>
     multiple_primary_keys"
  using
    ValidateKeyset_multiple_primary [of
      "\<lparr>primary_key_id = 1,
        key = [\<lparr>key_data_field = Some \<lparr>key_material_type = SYMMETRIC\<rparr>,
                status = ENABLED, key_id = 1, output_prefix_type = TINK\<rparr>,
               \<lparr>key_data_field = Some \<lparr>key_material_type = SYMMETRIC\<rparr>,
                status = ENABLED, key_id = 1, output_prefix_type = RAW\<rparr>,
               \<lparr>key_data_field = None,
                status = ENABLED, key_id = 5, output_prefix_type = TINK\<rparr>]\<rparr>"
      "[\<lparr>key_data_field = Some \<lparr>key_material_type = SYMMETRIC\<rparr>,
         status = ENABLED, key_id = 1, output_prefix_type = TINK\<rparr>]"
      "\<lparr>key_data_field = Some \<lparr>key_material_type = SYMMETRIC\<rparr>,
        status = ENABLED, key_id = 1, output_prefix_type = RAW\<rparr>"
      "[\<lparr>key_data_field = None,
         status = ENABLED, key_id = 5, output_prefix_type = TINK\<rparr>]"]
    ValidateKeyset_multiple_primary [of
      "\<lparr>primary_key_id = 1,
        key = [\<lparr>key_data_field = Some \<lparr>key_material_type = SYMMETRIC\<rparr>,
                status = ENABLED, key_id = 1, output_prefix_type = TINK\<rparr>,
               \<lparr>key_data_field = Some \<lparr>key_material_type = SYMMETRIC\<rparr>,
                status = DISABLED, key_id = 1, output_prefix_type = TINK\<rparr>]\<rparr>"]
  by (simp add: ValidateKey_def has_key_data_def)

text \<open>
  C2 as first stated asks only that the records matching \<open>primary_key_id\<close> pass the per-key
  checks. That is not enough: here both of them pass, but an Enabled record without
  payload comes first, and the loop returns its failure before it meets the second
  primary.
\<close>

theorem ValidateKeyset_multiple_primary_counterexample:
  "ValidateKey \<lparr>key_data_field = Some \<lparr>key_material_type = SYMMETRIC\<rparr>,
                status = ENABLED, key_id = 1, output_prefix_type = TINK\<rparr> = OK \<and>
   ValidateKeyset
     \<lparr>primary_key_id = 1,
      key = [\<lparr>key_data_field = None,
              status = ENABLED, key_id = 5, output_prefix_type = TINK\<rparr>,
             \<lparr>key_data_field = Some \<lparr>key_material_type = SYMMETRIC\<rparr>,
              status = ENABLED, key_id = 1, output_prefix_type = TINK\<rparr>,
             \<lparr>key_data_field = Some \<lparr>key_material_type = SYMMETRIC\<rparr>,
              status = ENABLED, key_id = 1, output_prefix_type = TINK\<rparr>]\<rparr> =
     ToStatusF INVALID_ARGUMENT ''key %d, has no key data'' [5] \<and>
   ValidateKeyset
     \<lparr>primary_key_id = 1,
      key = [\<lparr>key_data_field = None,
              status = ENABLED, key_id = 5, output_prefix_type = TINK\<rparr>,
             \<lparr>key_data_field = Some \<lparr>key_material_type = SYMMETRIC\<rparr>,
              status = ENABLED, key_id = 1, output_prefix_type = TINK\<rparr>,
             \<lparr>key_data_field = Some \<lparr>key_material_type = SYMMETRIC\<rparr>,
              status = ENABLED, key_id = 1, output_prefix_type = TINK\<rparr>]\<rparr> \<noteq>
     multiple_primary_keys"
  by (simp add: ValidateKeyset_def key_size_def initial_state_def ValidateKeyset_body_def
      ValidateKey_def has_key_data_def multiple_primary_keys_def ToStatusF_def)

text \<open>
  C3, amended. Let \<open>k\<close> be a record of the keyset, \<open>pre\<close> the records before it and
  \<open>rest\<close> those after it.

  If \<open>k\<close> is not Enabled, the loop skips it: from any locals, the loop over the keyset
  ends exactly as the loop over the keyset without \<open>k\<close>, so \<open>k\<close> is not given to
  \<open>ValidateKey\<close>, not counted and has no effect on the accumulators. The verdict is that
  of the keyset without \<open>k\<close>, as long as a record is left, and a keyset that is valid
  without \<open>k\<close> is valid with it; a record of status Unknown without payload is one such
  \<open>k\<close>.

  If \<open>k\<close> is Enabled, a successful verdict means \<open>k\<close> passed \<open>ValidateKey\<close>. If \<open>k\<close> fails
  \<open>ValidateKey\<close> and the loop reaches it, which it does when every Enabled record before
  it passes \<open>ValidateKey\<close> and at most one of them has \<open>key_id\<close> equal to
  \<open>primary_key_id\<close>, then the verdict is the failure of \<open>ValidateKey\<close> on \<open>k\<close>.
\<close>

theorem ValidateKeyset_skips_not_enabled:
  assumes "key ks = pre @ k # rest"
  shows
   "(status k \<noteq> ENABLED \<longrightarrow>
       ValidateKeyset_loop (primary_key_id ks) (key ks) st =
         ValidateKeyset_loop (primary_key_id ks) (pre @ rest) st \<and>
       (pre @ rest \<noteq> [] \<longrightarrow> ValidateKeyset ks = ValidateKeyset (ks\<lparr>key := pre @ rest\<rparr>)) \<and>
       (ValidateKeyset (ks\<lparr>key := pre @ rest\<rparr>) = OK \<longrightarrow> ValidateKeyset ks = OK)) \<and>
    (status k = ENABLED \<and> ValidateKeyset ks = OK \<longrightarrow> ValidateKey k = OK) \<and>
    (status k = ENABLED \<and> ValidateKey k \<noteq> OK \<and>
       (\<forall>j\<in>set pre. status j = ENABLED \<longrightarrow> ValidateKey j = OK) \<and>
       length (filter (enabled_primary (primary_key_id ks)) pre) \<le> 1 \<longrightarrow>
       ValidateKeyset ks = ValidateKey k)"
proof -
  have ks: "ks = ks\<lparr>key := pre @ k # rest\<rparr>"
    using assms by simp
  have skip: "ValidateKeyset_loop (primary_key_id ks) (key ks) st =
      ValidateKeyset_loop (primary_key_id ks) (pre @ rest) st"
    if "status k \<noteq> ENABLED"
    using that assms by (simp add: loop_skip)
  have remove: "ValidateKeyset ks = ValidateKeyset (ks\<lparr>key := pre @ rest\<rparr>)"
    if "status k \<noteq> ENABLED" and "pre @ rest \<noteq> []"
    using ValidateKeyset_remove [OF that, of ks] ks by simp
  have harmless: "ValidateKeyset ks = OK"
    if "status k \<noteq> ENABLED" and "ValidateKeyset (ks\<lparr>key := pre @ rest\<rparr>) = OK"
  proof (cases "pre @ rest = []")
    case True
    with that(2) show ?thesis
      by (simp add: ValidateKeyset_def key_size_def ToStatusF_def)
  next
    case False
    with remove that show ?thesis by simp
  qed
  have checked: "ValidateKey k = OK" if "status k = ENABLED" and "ValidateKeyset ks = OK"
    using ValidateKeyset_OK_valid [OF that(2) _ that(1)] assms by simp
  have propagated: "ValidateKeyset ks = ValidateKey k"
    if "status k = ENABLED" and "ValidateKey k \<noteq> OK"
      and "\<forall>j\<in>set pre. status j = ENABLED \<longrightarrow> ValidateKey j = OK"
      and "length (filter (enabled_primary (primary_key_id ks)) pre) \<le> 1"
    using ValidateKeyset_propagates [OF assms that] .
  from skip remove harmless checked propagated show ?thesis by blast
qed

theorem ValidateKeyset_skips_not_enabled_witness:
  "ValidateKeyset
     \<lparr>primary_key_id = 1,
      key = [\<lparr>key_data_field = None,
              status = UNKNOWN_STATUS, key_id = 3, output_prefix_type = UNKNOWN_PREFIX\<rparr>,
             \<lparr>key_data_field = Some \<lparr>key_material_type = SYMMETRIC\<rparr>,
              status = ENABLED, key_id = 1, output_prefix_type = TINK\<rparr>]\<rparr> = OK \<and>
   ValidateKeyset
     \<lparr>primary_key_id = 1,
      key = [\<lparr>key_data_field = Some \<lparr>key_material_type = SYMMETRIC\<rparr>,
              status = ENABLED, key_id = 1, output_prefix_type = TINK\<rparr>,
             \<lparr>key_data_field = Some \<lparr>key_material_type = SYMMETRIC\<rparr>,
              status = ENABLED, key_id = 2, output_prefix_type = UNKNOWN_PREFIX\<rparr>,
             \<lparr>key_data_field = None,
              status = ENABLED, key_id = 3, output_prefix_type = TINK\<rparr>]\<rparr> =
     ToStatusF INVALID_ARGUMENT ''key %d has unknown prefix'' [2] \<and>
   ValidateKey \<lparr>key_data_field = Some \<lparr>key_material_type = SYMMETRIC\<rparr>,
                status = ENABLED, key_id = 1, output_prefix_type = TINK\<rparr> = OK"
proof -
  have small: "ValidateKeyset
     \<lparr>primary_key_id = 1,
      key = [\<lparr>key_data_field = Some \<lparr>key_material_type = SYMMETRIC\<rparr>,
              status = ENABLED, key_id = 1, output_prefix_type = TINK\<rparr>]\<rparr> = OK"
    by (simp add: ValidateKeyset_def key_size_def initial_state_def ValidateKeyset_body_def
        ValidateKey_def has_key_data_def key_data_def)
  have skipped: "ValidateKeyset
     \<lparr>primary_key_id = 1,
      key = [\<lparr>key_data_field = None,
              status = UNKNOWN_STATUS, key_id = 3, output_prefix_type = UNKNOWN_PREFIX\<rparr>,
             \<lparr>key_data_field = Some \<lparr>key_material_type = SYMMETRIC\<rparr>,
              status = ENABLED, key_id = 1, output_prefix_type = TINK\<rparr>]\<rparr> = OK"
    using small
      ValidateKeyset_skips_not_enabled [of
        "\<lparr>primary_key_id = 1,
          key = [\<lparr>key_data_field = None,
                  status = UNKNOWN_STATUS, key_id = 3, output_prefix_type = UNKNOWN_PREFIX\<rparr>,
                 \<lparr>key_data_field = Some \<lparr>key_material_type = SYMMETRIC\<rparr>,
                  status = ENABLED, key_id = 1, output_prefix_type = TINK\<rparr>]\<rparr>"
        "[]"
        "\<lparr>key_data_field = None,
          status = UNKNOWN_STATUS, key_id = 3, output_prefix_type = UNKNOWN_PREFIX\<rparr>"
        "[\<lparr>key_data_field = Some \<lparr>key_material_type = SYMMETRIC\<rparr>,
           status = ENABLED, key_id = 1, output_prefix_type = TINK\<rparr>]"]
    by simp
  have propagated: "ValidateKeyset
     \<lparr>primary_key_id = 1,
      key = [\<lparr>key_data_field = Some \<lparr>key_material_type = SYMMETRIC\<rparr>,
              status = ENABLED, key_id = 1, output_prefix_type = TINK\<rparr>,
             \<lparr>key_data_field = Some \<lparr>key_material_type = SYMMETRIC\<rparr>,
              status = ENABLED, key_id = 2, output_prefix_type = UNKNOWN_PREFIX\<rparr>,
             \<lparr>key_data_field = None,
              status = ENABLED, key_id = 3, output_prefix_type = TINK\<rparr>]\<rparr> =
     ToStatusF INVALID_ARGUMENT ''key %d has unknown prefix'' [2]"
    using
      ValidateKeyset_skips_not_enabled [of
        "\<lparr>primary_key_id = 1,
          key = [\<lparr>key_data_field = Some \<lparr>key_material_type = SYMMETRIC\<rparr>,
                  status = ENABLED, key_id = 1, output_prefix_type = TINK\<rparr>,
                 \<lparr>key_data_field = Some \<lparr>key_material_type = SYMMETRIC\<rparr>,
                  status = ENABLED, key_id = 2, output_prefix_type = UNKNOWN_PREFIX\<rparr>,
                 \<lparr>key_data_field = None,
                  status = ENABLED, key_id = 3, output_prefix_type = TINK\<rparr>]\<rparr>"
        "[\<lparr>key_data_field = Some \<lparr>key_material_type = SYMMETRIC\<rparr>,
           status = ENABLED, key_id = 1, output_prefix_type = TINK\<rparr>]"
        "\<lparr>key_data_field = Some \<lparr>key_material_type = SYMMETRIC\<rparr>,
          status = ENABLED, key_id = 2, output_prefix_type = UNKNOWN_PREFIX\<rparr>"
        "[\<lparr>key_data_field = None,
           status = ENABLED, key_id = 3, output_prefix_type = TINK\<rparr>]"]
    by (simp add: ValidateKey_def has_key_data_def ToStatusF_def)
  have checked: "ValidateKey \<lparr>key_data_field = Some \<lparr>key_material_type = SYMMETRIC\<rparr>,
                status = ENABLED, key_id = 1, output_prefix_type = TINK\<rparr> = OK"
    using small
      ValidateKeyset_skips_not_enabled [of
        "\<lparr>primary_key_id = 1,
          key = [\<lparr>key_data_field = Some \<lparr>key_material_type = SYMMETRIC\<rparr>,
                  status = ENABLED, key_id = 1, output_prefix_type = TINK\<rparr>]\<rparr>"
        "[]"
        "\<lparr>key_data_field = Some \<lparr>key_material_type = SYMMETRIC\<rparr>,
          status = ENABLED, key_id = 1, output_prefix_type = TINK\<rparr>"
        "[]"]
    by simp
  from skipped propagated checked show ?thesis by simp
qed

text \<open>
  C3 as first stated has every Enabled record given to \<open>ValidateKey\<close> and the first
  per-key failure returned. Here the third record is Enabled and has no payload, and it
  is the only record that fails \<open>ValidateKey\<close>; but the second record is a second primary,
  so the loop returns "keyset contains multiple primary keys" and never reaches the
  third.
\<close>

theorem ValidateKeyset_per_key_failure_counterexample:
  "status \<lparr>key_data_field = None,
           status = ENABLED, key_id = 3, output_prefix_type = TINK\<rparr> = ENABLED \<and>
   ValidateKey \<lparr>key_data_field = None,
                status = ENABLED, key_id = 3, output_prefix_type = TINK\<rparr> =
     ToStatusF INVALID_ARGUMENT ''key %d, has no key data'' [3] \<and>
   ValidateKey \<lparr>key_data_field = Some \<lparr>key_material_type = SYMMETRIC\<rparr>,
                status = ENABLED, key_id = 1, output_prefix_type = TINK\<rparr> = OK \<and>
   ValidateKeyset
     \<lparr>primary_key_id = 1,
      key = [\<lparr>key_data_field = Some \<lparr>key_material_type = SYMMETRIC\<rparr>,
              status = ENABLED, key_id = 1, output_prefix_type = TINK\<rparr>,
             \<lparr>key_data_field = Some \<lparr>key_material_type = SYMMETRIC\<rparr>,
              status = ENABLED, key_id = 1, output_prefix_type = TINK\<rparr>,
             \<lparr>key_data_field = None,
              status = ENABLED, key_id = 3, output_prefix_type = TINK\<rparr>]\<rparr> =
     ToStatusF INVALID_ARGUMENT ''keyset contains multiple primary keys'' [] \<and>
   ValidateKeyset
     \<lparr>primary_key_id = 1,
      key = [\<lparr>key_data_field = Some \<lparr>key_material_type = SYMMETRIC\<rparr>,
              status = ENABLED, key_id = 1, output_prefix_type = TINK\<rparr>,
             \<lparr>key_data_field = Some \<lparr>key_material_type = SYMMETRIC\<rparr>,
              status = ENABLED, key_id = 1, output_prefix_type = TINK\<rparr>,
             \<lparr>key_data_field = None,
              status = ENABLED, key_id = 3, output_prefix_type = TINK\<rparr>]\<rparr> \<noteq>
     ValidateKey \<lparr>key_data_field = None,
                  status = ENABLED, key_id = 3, output_prefix_type = TINK\<rparr>"
  by (simp add: ValidateKeyset_def key_size_def initial_state_def ValidateKeyset_body_def
      ValidateKey_def has_key_data_def multiple_primary_keys_def ToStatusF_def)




text \<open>
  C10. Take a keyset in which two Enabled records, at positions \<open>i < j\<close>, share a
  \<open>key_id\<close> other than \<open>primary_key_id\<close>, every Enabled record passes \<open>ValidateKey\<close>, and
  there is an Enabled primary or all Enabled key material is public. Then
  \<open>ValidateKeyset\<close> succeeds, unless more than one Enabled record has \<open>key_id\<close> equal to
  \<open>primary_key_id\<close>, and then the failure is "keyset contains multiple primary keys":
  repeated ids are rejected in that case only.
\<close>

theorem ValidateKeyset_duplicate_key_ids:
  assumes "i < j" and "j < length (key ks)"
    and "status (key ks ! i) = ENABLED" and "status (key ks ! j) = ENABLED"
    and "key_id (key ks ! i) = key_id (key ks ! j)"
    and "key_id (key ks ! i) \<noteq> primary_key_id ks"
    and "\<forall>k\<in>set (key ks). status k = ENABLED \<longrightarrow> ValidateKey k = OK"
    and "(\<exists>k\<in>set (key ks). status k = ENABLED \<and> key_id k = primary_key_id ks) \<or>
         (\<forall>k\<in>set (key ks). status k = ENABLED \<longrightarrow>
             key_material_type (key_data k) = ASYMMETRIC_PUBLIC)"
  shows "ValidateKeyset ks =
     (if length (filter (enabled_primary (primary_key_id ks)) (key ks)) \<le> 1 then OK
      else multiple_primary_keys)"
proof (cases "length (filter (enabled_primary (primary_key_id ks)) (key ks)) \<le> 1")
  case True
  from assms(2,4) have "\<exists>k\<in>set (key ks). status k = ENABLED"
    by (auto intro: nth_mem)
  from ValidateKeyset_runs [OF assms(7) True this] assms(8) True
  show ?thesis by auto
next
  case False
  then have "2 \<le> length (filter (enabled_primary (primary_key_id ks)) (key ks))"
    by simp
  from ValidateKeyset_two_primaries [OF assms(7) this] False
  show ?thesis by simp
qed

theorem ValidateKeyset_duplicate_key_ids_witness:
  "ValidateKeyset
     \<lparr>primary_key_id = 1,
      key = [\<lparr>key_data_field = Some \<lparr>key_material_type = SYMMETRIC\<rparr>,
              status = ENABLED, key_id = 7, output_prefix_type = TINK\<rparr>,
             \<lparr>key_data_field = Some \<lparr>key_material_type = SYMMETRIC\<rparr>,
              status = ENABLED, key_id = 1, output_prefix_type = TINK\<rparr>,
             \<lparr>key_data_field = Some \<lparr>key_material_type = ASYMMETRIC_PRIVATE\<rparr>,
              status = ENABLED, key_id = 7, output_prefix_type = RAW\<rparr>]\<rparr> = OK \<and>
   ValidateKeyset
     \<lparr>primary_key_id = 1,
      key = [\<lparr>key_data_field = Some \<lparr>key_material_type = ASYMMETRIC_PUBLIC\<rparr>,
              status = ENABLED, key_id = 7, output_prefix_type = TINK\<rparr>,
             \<lparr>key_data_field = Some \<lparr>key_material_type = ASYMMETRIC_PUBLIC\<rparr>,
              status = ENABLED, key_id = 7, output_prefix_type = TINK\<rparr>]\<rparr> = OK \<and>
   ValidateKeyset
     \<lparr>primary_key_id = 1,
      key = [\<lparr>key_data_field = Some \<lparr>key_material_type = SYMMETRIC\<rparr>,
              status = ENABLED, key_id = 7, output_prefix_type = TINK\<rparr>,
             \<lparr>key_data_field = Some \<lparr>key_material_type = SYMMETRIC\<rparr>,
              status = ENABLED, key_id = 1, output_prefix_type = TINK\<rparr>,
             \<lparr>key_data_field = Some \<lparr>key_material_type = SYMMETRIC\<rparr>,
              status = ENABLED, key_id = 7, output_prefix_type = TINK\<rparr>,
             \<lparr>key_data_field = Some \<lparr>key_material_type = SYMMETRIC\<rparr>,
              status = ENABLED, key_id = 1, output_prefix_type = TINK\<rparr>]\<rparr> =
     multiple_primary_keys"
  using
    ValidateKeyset_duplicate_key_ids [of 0 2
      "\<lparr>primary_key_id = 1,
        key = [\<lparr>key_data_field = Some \<lparr>key_material_type = SYMMETRIC\<rparr>,
                status = ENABLED, key_id = 7, output_prefix_type = TINK\<rparr>,
               \<lparr>key_data_field = Some \<lparr>key_material_type = SYMMETRIC\<rparr>,
                status = ENABLED, key_id = 1, output_prefix_type = TINK\<rparr>,
               \<lparr>key_data_field = Some \<lparr>key_material_type = ASYMMETRIC_PRIVATE\<rparr>,
                status = ENABLED, key_id = 7, output_prefix_type = RAW\<rparr>]\<rparr>"]
    ValidateKeyset_duplicate_key_ids [of 0 1
      "\<lparr>primary_key_id = 1,
        key = [\<lparr>key_data_field = Some \<lparr>key_material_type = ASYMMETRIC_PUBLIC\<rparr>,
                status = ENABLED, key_id = 7, output_prefix_type = TINK\<rparr>,
               \<lparr>key_data_field = Some \<lparr>key_material_type = ASYMMETRIC_PUBLIC\<rparr>,
                status = ENABLED, key_id = 7, output_prefix_type = TINK\<rparr>]\<rparr>"]
    ValidateKeyset_duplicate_key_ids [of 0 2
      "\<lparr>primary_key_id = 1,
        key = [\<lparr>key_data_field = Some \<lparr>key_material_type = SYMMETRIC\<rparr>,
                status = ENABLED, key_id = 7, output_prefix_type = TINK\<rparr>,
               \<lparr>key_data_field = Some \<lparr>key_material_type = SYMMETRIC\<rparr>,
                status = ENABLED, key_id = 1, output_prefix_type = TINK\<rparr>,
               \<lparr>key_data_field = Some \<lparr>key_material_type = SYMMETRIC\<rparr>,
                status = ENABLED, key_id = 7, output_prefix_type = TINK\<rparr>,
               \<lparr>key_data_field = Some \<lparr>key_material_type = SYMMETRIC\<rparr>,
                status = ENABLED, key_id = 1, output_prefix_type = TINK\<rparr>]\<rparr>"]
  by (simp add: ValidateKey_def has_key_data_def key_data_def)

end
